theory Spec2Isabelle
  imports Main "HOL-Library.Word"
begin

section \<open>The LED/button kernel module: data\<close>

text \<open>
  The module of \<^verbatim>\<open>BeagleBone_LED-Button.c\<close> keeps its whole state in file-level
  variables. \<^verbatim>\<open>unsigned int\<close> is a 32-bit word on the target (arithmetic wraps),
  \<^verbatim>\<open>bool\<close> is \<open>bool\<close>, and \<^verbatim>\<open>enum modes {OFF, ON, FLASH}\<close> is a datatype.
\<close>

type_synonym u32 = "32 word"

datatype modes = OFF | ON | FLASH

text \<open>The value of \<^verbatim>\<open>task\<close>: unset, a created thread, or an \<^verbatim>\<open>ERR_PTR\<close> with its code.\<close>

datatype task_struct = NoTask | Task | ErrPtr int

datatype task_state = TASK_RUNNING | TASK_INTERRUPTIBLE

datatype irqreturn = IRQ_NONE | IRQ_HANDLED

text \<open>The \<^verbatim>\<open>printk\<close> lines of the module, one constructor per format string.\<close>

datatype log_msg =
    LogInitializing
  | LogInvalidLed
  | LogButtonState int
  | LogIrqMapped u32
  | LogIrqResult int
  | LogTaskFailed
  | LogThreadStarted
  | LogPressedTimes u32
  | LogGoodbye
  | LogPressedCount u32

text \<open>
  Every call the module makes into the kernel is recorded, in program order, as an event.
\<close>

datatype event =
    Printk log_msg
  | GpioRequest u32
  | GpioDirectionOutput u32 bool
  | GpioDirectionInput u32
  | GpioSetDebounce u32 u32
  | GpioExport u32 bool
  | GpioSetValue u32 bool
  | GpioUnexport u32
  | GpioFree u32
  | RequestIrq u32
  | FreeIrq u32
  | KthreadRun
  | KthreadStop
  | SetCurrentState task_state
  | Msleep u32

text \<open>
  The first eight fields are the module's variables. The remaining fields are the part of
  the kernel the module acts on: the level last driven on each pin, the pins currently
  requested, the pins currently exported, the interrupt lines currently registered and the
  record of calls made so far.
\<close>

record sys =
  irqNumber :: u32
  numberPresses :: u32
  currentStateLedRED :: bool
  currentStateLedGREEN :: bool
  ledOn :: bool
  mode :: modes
  task :: task_struct
  blinkPeriod :: u32
  levels :: "u32 \<Rightarrow> bool"
  requested :: "u32 list"
  exported :: "u32 list"
  irqs :: "u32 list"
  trace :: "event list"

text \<open>
  What the kernel answers, which the source cannot know: the number of GPIOs the kernel
  was configured for (\<^verbatim>\<open>ARCH_NR_GPIOS\<close>), the return code of \<^verbatim>\<open>gpio_request\<close> per
  pin, \<^verbatim>\<open>gpio_to_irq\<close>, the return code of \<^verbatim>\<open>request_irq\<close> and the result of
  \<^verbatim>\<open>kthread_run\<close>.
\<close>

record platform =
  ARCH_NR_GPIOS :: int
  gpio_request_rc :: "u32 \<Rightarrow> int"
  gpio_to_irq :: "u32 \<Rightarrow> int"
  request_irq_rc :: int
  kthread_run_result :: task_struct

text \<open>
  \<^verbatim>\<open>gpio_is_valid\<close> is not a symbol the module imports: it is the inline function of
  \<^verbatim>\<open>linux/gpio.h\<close>, which takes the number as an \<^verbatim>\<open>int\<close> and answers
  \<^verbatim>\<open>number >= 0 && number < ARCH_NR_GPIOS\<close>.
\<close>

definition gpio_is_valid :: "platform \<Rightarrow> u32 \<Rightarrow> bool" where
  "gpio_is_valid p pin = (0 \<le> sint pin \<and> sint pin < ARCH_NR_GPIOS p)"

text \<open>The pin numbers are initialised once and never assigned.\<close>

definition gpioLedRED :: u32 where
  "gpioLedRED = 66"

definition gpioLedGREEN :: u32 where
  "gpioLedGREEN = 67"

definition gpioButton :: u32 where
  "gpioButton = 69"

definition ENODEV :: int where
  "ENODEV = 19"

text \<open>The static initialisers, before any call has been made.\<close>

definition init_sys :: sys where
  "init_sys = \<lparr> irqNumber = 0, numberPresses = 0, currentStateLedRED = True,
     currentStateLedGREEN = False, ledOn = False, mode = FLASH, task = NoTask,
     blinkPeriod = 1000, levels = (\<lambda>_. False), requested = [], exported = [],
     irqs = [], trace = [] \<rparr>"

section \<open>Kernel calls\<close>

definition emit :: "event \<Rightarrow> sys \<Rightarrow> sys" where
  "emit e s = s\<lparr>trace := trace s @ [e]\<rparr>"

definition printk :: "log_msg \<Rightarrow> sys \<Rightarrow> sys" where
  "printk m s = emit (Printk m) s"

definition gpio_request :: "platform \<Rightarrow> u32 \<Rightarrow> sys \<Rightarrow> sys" where
  "gpio_request p pin s =
     emit (GpioRequest pin)
       (if gpio_request_rc p pin = 0 then s\<lparr>requested := pin # requested s\<rparr> else s)"

definition gpio_direction_output :: "u32 \<Rightarrow> bool \<Rightarrow> sys \<Rightarrow> sys" where
  "gpio_direction_output pin v s =
     emit (GpioDirectionOutput pin v) (s\<lparr>levels := (levels s)(pin := v)\<rparr>)"

definition gpio_direction_input :: "u32 \<Rightarrow> sys \<Rightarrow> sys" where
  "gpio_direction_input pin s = emit (GpioDirectionInput pin) s"

definition gpio_set_debounce :: "u32 \<Rightarrow> u32 \<Rightarrow> sys \<Rightarrow> sys" where
  "gpio_set_debounce pin ms s = emit (GpioSetDebounce pin ms) s"

text \<open>A pin is exported only while it is requested; otherwise the call changes nothing.\<close>

definition gpio_export :: "u32 \<Rightarrow> bool \<Rightarrow> sys \<Rightarrow> sys" where
  "gpio_export pin may_change s =
     emit (GpioExport pin may_change)
       (if pin \<in> set (requested s) then s\<lparr>exported := pin # exported s\<rparr> else s)"

definition gpio_get_value :: "u32 \<Rightarrow> sys \<Rightarrow> int" where
  "gpio_get_value pin s = (if levels s pin then 1 else 0)"

definition gpio_set_value :: "u32 \<Rightarrow> bool \<Rightarrow> sys \<Rightarrow> sys" where
  "gpio_set_value pin v s =
     emit (GpioSetValue pin v) (s\<lparr>levels := (levels s)(pin := v)\<rparr>)"

definition gpio_unexport :: "u32 \<Rightarrow> sys \<Rightarrow> sys" where
  "gpio_unexport pin s =
     emit (GpioUnexport pin) (s\<lparr>exported := removeAll pin (exported s)\<rparr>)"

definition gpio_free :: "u32 \<Rightarrow> sys \<Rightarrow> sys" where
  "gpio_free pin s =
     emit (GpioFree pin) (s\<lparr>requested := removeAll pin (requested s)\<rparr>)"

definition request_irq :: "platform \<Rightarrow> u32 \<Rightarrow> sys \<Rightarrow> int \<times> sys" where
  "request_irq p irq s =
     (request_irq_rc p,
      emit (RequestIrq irq)
        (if request_irq_rc p = 0 then s\<lparr>irqs := irq # irqs s\<rparr> else s))"

definition free_irq :: "u32 \<Rightarrow> sys \<Rightarrow> sys" where
  "free_irq irq s = emit (FreeIrq irq) (s\<lparr>irqs := removeAll irq (irqs s)\<rparr>)"

definition kthread_run :: "platform \<Rightarrow> sys \<Rightarrow> task_struct \<times> sys" where
  "kthread_run p s = (kthread_run_result p, emit KthreadRun s)"

definition kthread_stop :: "sys \<Rightarrow> sys" where
  "kthread_stop s = emit KthreadStop s"

definition set_current_state :: "task_state \<Rightarrow> sys \<Rightarrow> sys" where
  "set_current_state st s = emit (SetCurrentState st) s"

definition msleep :: "u32 \<Rightarrow> sys \<Rightarrow> sys" where
  "msleep ms s = emit (Msleep ms) s"

text \<open>\<^verbatim>\<open>IS_ERR\<close> holds for the error codes \<^verbatim>\<open>-MAX_ERRNO\<close> (\<open>- 4095\<close>) to \<open>- 1\<close>.\<close>

fun IS_ERR :: "task_struct \<Rightarrow> bool" where
  "IS_ERR (ErrPtr e) = (- 4095 \<le> e \<and> e \<le> - 1)"
| "IS_ERR t = False"

text \<open>\<^verbatim>\<open>PTR_ERR\<close> is only called on a value for which \<^verbatim>\<open>IS_ERR\<close> holds.\<close>

fun PTR_ERR :: "task_struct \<Rightarrow> int" where
  "PTR_ERR (ErrPtr e) = e"
| "PTR_ERR t = 0"

section \<open>The interrupt handler\<close>

text \<open>
  \<^verbatim>\<open>ebbgpio_irq_handler\<close>: logs the count, flips the mode with \<^verbatim>\<open>if (mode == FLASH)
  mode = ON; else mode = FLASH;\<close>, increments the count and returns \<^verbatim>\<open>IRQ_HANDLED\<close>.
  The arguments \<^verbatim>\<open>dev_id\<close> and \<^verbatim>\<open>regs\<close> are not used and \<^verbatim>\<open>irq\<close> is not read.
\<close>

definition ebbgpio_irq_handler :: "u32 \<Rightarrow> sys \<Rightarrow> irqreturn \<times> sys" where
  "ebbgpio_irq_handler irq s =
     (let s1 = printk (LogPressedCount (numberPresses s)) s;
          s2 = (if mode s1 = FLASH then s1\<lparr>mode := ON\<rparr> else s1\<lparr>mode := FLASH\<rparr>);
          s3 = s2\<lparr>numberPresses := numberPresses s2 + 1\<rparr>
      in (IRQ_HANDLED, s3))"

text \<open>\<open>n\<close> interrupts in a row, each on the registered line.\<close>

primrec irq_n :: "nat \<Rightarrow> sys \<Rightarrow> sys" where
  "irq_n 0 s = s"
| "irq_n (Suc n) s = irq_n n (snd (ebbgpio_irq_handler (irqNumber s) s))"

text \<open>The modes seen after the first, second, ..., \<open>n\<close>-th of these interrupts.\<close>

primrec modes_after :: "nat \<Rightarrow> sys \<Rightarrow> modes list" where
  "modes_after 0 s = []"
| "modes_after (Suc n) s =
     (let s' = snd (ebbgpio_irq_handler (irqNumber s) s) in mode s' # modes_after n s')"

section \<open>The LED thread\<close>

text \<open>
  One pass through the body of the \<^verbatim>\<open>while\<close> loop of \<^verbatim>\<open>kThread_run\<close>, with no
  interrupt taken inside the pass: both tests of \<^verbatim>\<open>mode\<close> see the same value.
\<close>

definition kThread_tick :: "sys \<Rightarrow> sys" where
  "kThread_tick s =
     (let s1 = set_current_state TASK_RUNNING s;
          s2 = (if mode s1 = FLASH then s1\<lparr>ledOn := \<not> ledOn s1\<rparr>
                else if mode s1 = ON then s1\<lparr>ledOn := True\<rparr>
                else s1\<lparr>ledOn := False\<rparr>);
          s3 = gpio_set_value gpioLedGREEN (ledOn s2) s2;
          s4 = gpio_set_value gpioLedRED (ledOn s3) s3;
          s5 = set_current_state TASK_INTERRUPTIBLE s4
      in msleep (blinkPeriod s5 div 3) s5)"

text \<open>
  \<^verbatim>\<open>kThread_run\<close>. Whether the loop goes on is decided outside the thread, by
  \<^verbatim>\<open>kthread_should_stop\<close>; its successive answers are the first argument. The thread
  returns 0 at the first \<open>True\<close>; with no \<open>True\<close> among the answers it has not returned.
\<close>

fun kThread_loop :: "bool list \<Rightarrow> sys \<Rightarrow> (int \<times> sys) option" where
  "kThread_loop [] s = None"
| "kThread_loop (stop # answers) s =
     (if \<not> stop then kThread_loop answers (kThread_tick s) else Some (0, s))"

definition kThread_run :: "bool list \<Rightarrow> sys \<Rightarrow> (int \<times> sys) option" where
  "kThread_run answers s = kThread_loop answers (printk LogThreadStarted s)"

text \<open>\<open>k\<close> passes through the loop body.\<close>

primrec ticks :: "nat \<Rightarrow> sys \<Rightarrow> sys" where
  "ticks 0 s = s"
| "ticks (Suc k) s = ticks k (kThread_tick s)"

text \<open>The value of \<^verbatim>\<open>ledOn\<close> after the first, second, ..., \<open>k\<close>-th pass.\<close>

primrec led_after :: "nat \<Rightarrow> sys \<Rightarrow> bool list" where
  "led_after 0 s = []"
| "led_after (Suc k) s = (let s' = kThread_tick s in ledOn s' # led_after k s')"

text \<open>How often a sequence of booleans changes value, starting from \<open>b\<close>.\<close>

fun flips :: "bool \<Rightarrow> bool list \<Rightarrow> nat" where
  "flips b [] = 0"
| "flips b (c # cs) = (if c \<noteq> b then 1 else 0) + flips c cs"

text \<open>The events a step added to the record, and what they say.\<close>

definition new_events :: "sys \<Rightarrow> sys \<Rightarrow> event list" where
  "new_events s s' = drop (length (trace s)) (trace s')"

fun led_writes :: "event list \<Rightarrow> (u32 \<times> bool) list" where
  "led_writes [] = []"
| "led_writes (GpioSetValue pin v # es) = (pin, v) # led_writes es"
| "led_writes (e # es) = led_writes es"

fun sleeps :: "event list \<Rightarrow> u32 list" where
  "sleeps [] = []"
| "sleeps (Msleep ms # es) = ms # sleeps es"
| "sleeps (e # es) = sleeps es"

section \<open>Loading and unloading\<close>

text \<open>\<^verbatim>\<open>ebbgpio_init\<close>. The return codes of the GPIO calls are not looked at.\<close>

definition ebbgpio_init :: "platform \<Rightarrow> sys \<Rightarrow> int \<times> sys" where
  "ebbgpio_init p s =
     (let s = printk LogInitializing s in
      if \<not> gpio_is_valid p gpioLedRED \<and> \<not> gpio_is_valid p gpioLedGREEN
      then (- ENODEV, printk LogInvalidLed s)
      else
        let s = gpio_request p gpioLedRED s;
            s = gpio_request p gpioLedGREEN s;
            s = gpio_direction_output gpioLedRED (currentStateLedRED s) s;
            s = gpio_direction_output gpioLedGREEN (currentStateLedGREEN s) s;
            s = gpio_export gpioLedRED False s;
            s = gpio_export gpioLedGREEN False s;
            s = gpio_request p gpioButton s;
            s = gpio_direction_input gpioButton s;
            s = gpio_set_debounce gpioButton 200 s;
            s = gpio_export gpioButton False s;
            s = printk (LogButtonState (gpio_get_value gpioButton s)) s;
            s = s\<lparr>irqNumber := word_of_int (gpio_to_irq p gpioButton)\<rparr>;
            s = printk (LogIrqMapped (irqNumber s)) s;
            (result, s) = request_irq p (irqNumber s) s;
            s = printk (LogIrqResult result) s;
            (t, s) = kthread_run p s;
            s = s\<lparr>task := t\<rparr>
        in if IS_ERR (task s)
           then (PTR_ERR (task s), printk LogTaskFailed s)
           else (result, s))"

text \<open>\<^verbatim>\<open>ebbgpio_exit\<close>.\<close>

definition ebbgpio_exit :: "sys \<Rightarrow> sys" where
  "ebbgpio_exit s =
     (let s = kthread_stop s;
          s = printk (LogButtonState (gpio_get_value gpioButton s)) s;
          s = printk (LogPressedTimes (numberPresses s)) s;
          s = gpio_set_value gpioLedRED False s;
          s = gpio_set_value gpioLedGREEN False s;
          s = gpio_unexport gpioLedRED s;
          s = gpio_unexport gpioLedGREEN s;
          s = free_irq (irqNumber s) s;
          s = gpio_unexport gpioButton s;
          s = gpio_free gpioLedRED s;
          s = gpio_free gpioLedGREEN s;
          s = gpio_free gpioButton s
      in printk LogGoodbye s)"

section \<open>The module at run time\<close>

text \<open>
  Once loaded, the module's state changes in two ways only: an interrupt arrives or the
  LED thread makes a pass. A run is any sequence of the two.
\<close>

datatype action = Interrupt | Tick

fun step :: "action \<Rightarrow> sys \<Rightarrow> sys" where
  "step Interrupt s = snd (ebbgpio_irq_handler (irqNumber s) s)"
| "step Tick s = kThread_tick s"

fun run :: "action list \<Rightarrow> sys \<Rightarrow> sys" where
  "run [] s = s"
| "run (a # as) s = run as (step a s)"

section \<open>Measures on the record of calls\<close>

text \<open>The time asked of \<^verbatim>\<open>msleep\<close> in a list of events, in milliseconds.\<close>

definition slept :: "event list \<Rightarrow> nat" where
  "slept es = sum_list (map unat (sleeps es))"

text \<open>The calls that give a resource back.\<close>

fun is_release :: "event \<Rightarrow> bool" where
  "is_release (GpioUnexport pin) = True"
| "is_release (GpioFree pin) = True"
| "is_release (FreeIrq irq) = True"
| "is_release e = False"

text \<open>
  The order of unloading in the words of the specification, to be compared with
  \<open>ebbgpio_exit\<close>: stopping the thread comes first (0), then the LED outputs are forced
  off (1), then pins are unexported and freed (2), then the interrupt is unregistered (3),
  and the count is reported last (4). A list of events follows that order when the stages
  of its events never go down; the other log lines have no stage.
\<close>

fun shutdown_stage :: "event \<Rightarrow> nat option" where
  "shutdown_stage KthreadStop = Some 0"
| "shutdown_stage (GpioSetValue pin v) = Some 1"
| "shutdown_stage (GpioUnexport pin) = Some 2"
| "shutdown_stage (GpioFree pin) = Some 2"
| "shutdown_stage (FreeIrq irq) = Some 3"
| "shutdown_stage (Printk (LogPressedTimes n)) = Some 4"
| "shutdown_stage e = None"

definition shutdown_order_as_specified :: "event list \<Rightarrow> bool" where
  "shutdown_order_as_specified es = sorted (List.map_filter shutdown_stage es)"

section \<open>Three platforms\<close>

text \<open>512 GPIOs, so every pin of the module is valid, and every call succeeds.\<close>

definition board_ok :: platform where
  "board_ok = \<lparr> ARCH_NR_GPIOS = 512, gpio_request_rc = (\<lambda>pin. 0),
     gpio_to_irq = (\<lambda>pin. 181), request_irq_rc = 0, kthread_run_result = Task \<rparr>"


text \<open>512 GPIOs and every pin requested with success; \<^verbatim>\<open>request_irq\<close> fails with \<^verbatim>\<open>-EBUSY\<close>.\<close>

definition board_irq_busy :: platform where
  "board_irq_busy = \<lparr> ARCH_NR_GPIOS = 512, gpio_request_rc = (\<lambda>pin. 0),
     gpio_to_irq = (\<lambda>pin. 181), request_irq_rc = - 16, kthread_run_result = Task \<rparr>"

section \<open>The interrupt handler: mode and count\<close>

lemma handler_mode:
  "mode (snd (ebbgpio_irq_handler irq s)) = (if mode s = FLASH then ON else FLASH)"
  by (simp add: ebbgpio_irq_handler_def printk_def emit_def Let_def)

lemma handler_presses:
  "numberPresses (snd (ebbgpio_irq_handler irq s)) = numberPresses s + 1"
  by (simp add: ebbgpio_irq_handler_def printk_def emit_def Let_def)

lemma handler_returns: "fst (ebbgpio_irq_handler irq s) = IRQ_HANDLED"
  by (simp add: ebbgpio_irq_handler_def Let_def)

lemma irq_n_presses: "numberPresses (irq_n n s) = numberPresses s + of_nat n"
  by (induction n arbitrary: s) (simp_all add: handler_presses)

lemma modes_after_flash:
  "mode s = FLASH \<Longrightarrow>
     modes_after n s = map (\<lambda>k. if even k then ON else FLASH) [0..<n]"
  "mode s = ON \<Longrightarrow>
     modes_after n s = map (\<lambda>k. if even k then FLASH else ON) [0..<n]"
proof (induction n arbitrary: s)
  case 0
  { case 1 show ?case by simp }
  { case 2 show ?case by simp }
next
  case (Suc n)
  { case 1
    then have "mode (snd (ebbgpio_irq_handler (irqNumber s) s)) = ON"
      by (simp add: handler_mode)
    from Suc.IH(2) [OF this] 1 show ?case
      by (simp add: Let_def handler_mode upt_conv_Cons map_Suc_upt [symmetric] del: upt_Suc) }
  { case 2
    then have "mode (snd (ebbgpio_irq_handler (irqNumber s) s)) = FLASH"
      by (simp add: handler_mode)
    from Suc.IH(1) [OF this] 2 show ?case
      by (simp add: Let_def handler_mode upt_conv_Cons map_Suc_upt [symmetric] del: upt_Suc) }
qed

lemma irq_n_mode:
  "mode s = FLASH \<Longrightarrow> mode (irq_n n s) = (if even n then FLASH else ON)"
  "mode s = ON \<Longrightarrow> mode (irq_n n s) = (if even n then ON else FLASH)"
proof (induction n arbitrary: s)
  case 0
  { case 1 then show ?case by simp }
  { case 2 then show ?case by simp }
next
  case (Suc n)
  { case 1
    then have "mode (snd (ebbgpio_irq_handler (irqNumber s) s)) = ON"
      by (simp add: handler_mode)
    from Suc.IH(2) [OF this] show ?case by simp }
  { case 2
    then have "mode (snd (ebbgpio_irq_handler (irqNumber s) s)) = FLASH"
      by (simp add: handler_mode)
    from Suc.IH(1) [OF this] show ?case by simp }
qed

lemma modes_after_nth:
  "k < n \<Longrightarrow> modes_after n s ! k = mode (irq_n (Suc k) s)"
proof (induction n arbitrary: s k)
  case 0
  then show ?case by simp
next
  case (Suc n)
  show ?case
  proof (cases k)
    case 0
    then show ?thesis by (simp add: Let_def)
  next
    case (Suc j)
    with Suc.prems have "j < n" by simp
    from Suc.IH [OF this] Suc show ?thesis by (simp add: Let_def)
  qed
qed

lemma handler_irqNumber: "irqNumber (snd (ebbgpio_irq_handler irq s)) = irqNumber s"
  by (simp add: ebbgpio_irq_handler_def printk_def emit_def Let_def)

lemma tick_mode: "mode (kThread_tick s) = mode s"
  by (simp add: kThread_tick_def set_current_state_def gpio_set_value_def msleep_def
      emit_def Let_def)

lemma step_keeps_on_or_flash: "mode s \<noteq> OFF \<Longrightarrow> mode (step a s) \<noteq> OFF"
  by (cases a) (simp_all add: handler_mode tick_mode)

lemma run_keeps_on_or_flash: "mode s \<noteq> OFF \<Longrightarrow> mode (run acts s) \<noteq> OFF"
  by (induction acts arbitrary: s) (simp_all add: step_keeps_on_or_flash)

lemma irq_n_keeps_on_or_flash: "mode s \<noteq> OFF \<Longrightarrow> mode (irq_n n s) \<noteq> OFF"
  by (induction n arbitrary: s) (simp_all add: handler_mode)

lemma not_off_iff: "m \<noteq> OFF \<longleftrightarrow> m \<in> {ON, FLASH}"
  by (cases m) simp_all

text \<open>
  C1 (as amended). Starting from the static initialisers (mode \<open>FLASH\<close>, count 0), the
  modes seen after the 1st, 2nd, ..., \<open>N\<close>-th interrupt are \<open>ON, FLASH, ON, FLASH, ...\<close>,
  for every \<open>N\<close>. The count is a 32-bit unsigned integer: after \<open>N\<close> interrupts it is
  \<open>N mod 2 ^ 32\<close>, which is \<open>N\<close> as long as \<open>N < 2 ^ 32\<close>.
\<close>

theorem irq_alternates_and_counts:
  "modes_after N init_sys = map (\<lambda>k. if even k then ON else FLASH) [0..<N]
   \<and> mode (irq_n N init_sys) = (if even N then FLASH else ON)
   \<and> unat (numberPresses (irq_n N init_sys)) = N mod 2 ^ 32
   \<and> (N < 2 ^ 32 \<longrightarrow> unat (numberPresses (irq_n N init_sys)) = N)"
proof -
  have e: "mode (irq_n N init_sys) = (if even N then FLASH else ON)"
    by (rule irq_n_mode(1)) (simp add: init_sys_def)
  have m: "modes_after N init_sys = map (\<lambda>k. if even k then ON else FLASH) [0..<N]"
    by (rule modes_after_flash(1)) (simp add: init_sys_def)
  have "numberPresses (irq_n N init_sys) = of_nat N"
    by (simp add: irq_n_presses init_sys_def)
  then have c: "unat (numberPresses (irq_n N init_sys)) = N mod 2 ^ 32"
    by (simp add: unat_of_nat)
  from m e c show ?thesis by simp
qed

theorem irq_alternates_and_counts_witness:
  "modes_after 4 init_sys = [ON, FLASH, ON, FLASH]
   \<and> (4::nat) < 2 ^ 32
   \<and> unat (numberPresses (irq_n 4 init_sys)) = 4"
  using irq_alternates_and_counts [of 4] by (simp add: upt_rec)

text \<open>
  C1 as stated fails for the count: after \<open>2 ^ 32\<close> interrupts the 32-bit count has
  wrapped to 0.
\<close>

theorem irq_count_wraps:
  "unat (numberPresses (irq_n (2 ^ 32) init_sys)) \<noteq> 2 ^ 32"
proof -
  have "numberPresses (irq_n (2 ^ 32) init_sys) = of_nat (2 ^ 32)"
    by (simp add: irq_n_presses init_sys_def)
  also have "\<dots> = (0 :: u32)"
    by simp
  finally show ?thesis by simp
qed

text \<open>
  C4. The handler leaves the mode at \<open>ON\<close> or \<open>FLASH\<close>, whatever it was: \<open>FLASH\<close> goes
  to \<open>ON\<close> and everything else to \<open>FLASH\<close>. From the initial mode \<open>FLASH\<close>, no number of
  interrupts, and no interleaving of interrupts with passes of the LED thread, reaches
  \<open>OFF\<close>.
\<close>

theorem off_is_unreachable:
  "mode (snd (ebbgpio_irq_handler irq s)) = (if mode s = FLASH then ON else FLASH)
   \<and> mode (irq_n n init_sys) \<in> {ON, FLASH}
   \<and> mode (run acts init_sys) \<in> {ON, FLASH}"
proof -
  have i: "mode init_sys \<noteq> OFF" by (simp add: init_sys_def)
  have "mode (irq_n n init_sys) \<noteq> OFF"
    by (rule irq_n_keeps_on_or_flash [OF i])
  moreover have "mode (run acts init_sys) \<noteq> OFF"
    by (rule run_keeps_on_or_flash [OF i])
  ultimately show ?thesis
    by (simp add: handler_mode not_off_iff)
qed

text \<open>
  C9. When the mode is not \<open>FLASH\<close> (so also when it is \<open>OFF\<close>), one call of the
  handler sets it to \<open>FLASH\<close>, adds one to the count and returns \<open>IRQ_HANDLED\<close>.
\<close>

theorem handler_from_off:
  "mode s \<noteq> FLASH \<Longrightarrow>
     ebbgpio_irq_handler irq s = (r, s') \<Longrightarrow>
     r = IRQ_HANDLED \<and> mode s' = FLASH \<and> numberPresses s' = numberPresses s + 1"
  using handler_mode [of irq s] handler_presses [of irq s] handler_returns [of irq s]
  by simp

theorem handler_from_off_witness:
  "mode (init_sys\<lparr>mode := OFF\<rparr>) \<noteq> FLASH
   \<and> fst (ebbgpio_irq_handler 0 (init_sys\<lparr>mode := OFF\<rparr>)) = IRQ_HANDLED
   \<and> mode (snd (ebbgpio_irq_handler 0 (init_sys\<lparr>mode := OFF\<rparr>))) = FLASH
   \<and> numberPresses (snd (ebbgpio_irq_handler 0 (init_sys\<lparr>mode := OFF\<rparr>))) = 1"
proof -
  have h: "mode (init_sys\<lparr>mode := OFF\<rparr>) \<noteq> FLASH" by simp
  have e: "ebbgpio_irq_handler 0 (init_sys\<lparr>mode := OFF\<rparr>)
      = (fst (ebbgpio_irq_handler 0 (init_sys\<lparr>mode := OFF\<rparr>)),
         snd (ebbgpio_irq_handler 0 (init_sys\<lparr>mode := OFF\<rparr>)))"
    by simp
  from handler_from_off [OF h e] h show ?thesis
    by (simp add: init_sys_def)
qed

section \<open>The LED thread: one pass\<close>

lemma tick_ledOn:
  "ledOn (kThread_tick s) = (case mode s of FLASH \<Rightarrow> \<not> ledOn s | ON \<Rightarrow> True | OFF \<Rightarrow> False)"
  by (cases "mode s")
    (simp_all add: kThread_tick_def set_current_state_def gpio_set_value_def msleep_def
      emit_def Let_def)

lemma tick_blinkPeriod: "blinkPeriod (kThread_tick s) = blinkPeriod s"
  by (simp add: kThread_tick_def set_current_state_def gpio_set_value_def msleep_def
      emit_def Let_def)

lemma tick_trace:
  "trace (kThread_tick s) = trace s @
     [SetCurrentState TASK_RUNNING,
      GpioSetValue gpioLedGREEN (ledOn (kThread_tick s)),
      GpioSetValue gpioLedRED (ledOn (kThread_tick s)),
      SetCurrentState TASK_INTERRUPTIBLE,
      Msleep (blinkPeriod s div 3)]"
  by (simp add: kThread_tick_def set_current_state_def gpio_set_value_def msleep_def
      emit_def Let_def)

lemma tick_levels:
  "levels (kThread_tick s) =
     (levels s)(gpioLedGREEN := ledOn (kThread_tick s), gpioLedRED := ledOn (kThread_tick s))"
  by (simp add: kThread_tick_def set_current_state_def gpio_set_value_def msleep_def
      emit_def Let_def)

lemma tick_new_events:
  "new_events s (kThread_tick s) =
     [SetCurrentState TASK_RUNNING,
      GpioSetValue gpioLedGREEN (ledOn (kThread_tick s)),
      GpioSetValue gpioLedRED (ledOn (kThread_tick s)),
      SetCurrentState TASK_INTERRUPTIBLE,
      Msleep (blinkPeriod s div 3)]"
  by (simp add: new_events_def tick_trace)

lemma pins_differ: "gpioLedRED \<noteq> gpioLedGREEN"
  by (simp add: gpioLedRED_def gpioLedGREEN_def)

text \<open>
  C2. A pass of the loop body sets \<open>ledOn\<close> from the mode (\<open>FLASH\<close>: the negation of
  its previous value, \<open>ON\<close>: true, \<open>OFF\<close>: false) and then writes that value to the
  green and to the red LED pin, which both end the pass at that level.
\<close>

theorem tick_renders_mode:
  "ledOn (kThread_tick s) =
     (case mode s of FLASH \<Rightarrow> \<not> ledOn s | ON \<Rightarrow> True | OFF \<Rightarrow> False)
   \<and> led_writes (new_events s (kThread_tick s)) =
       [(gpioLedGREEN, ledOn (kThread_tick s)), (gpioLedRED, ledOn (kThread_tick s))]
   \<and> levels (kThread_tick s) gpioLedGREEN = ledOn (kThread_tick s)
   \<and> levels (kThread_tick s) gpioLedRED = ledOn (kThread_tick s)"
proof -
  have "led_writes (new_events s (kThread_tick s)) =
      [(gpioLedGREEN, ledOn (kThread_tick s)), (gpioLedRED, ledOn (kThread_tick s))]"
    by (simp add: tick_new_events)
  moreover have "levels (kThread_tick s) gpioLedGREEN = ledOn (kThread_tick s)"
    using pins_differ by (simp add: tick_levels)
  moreover have "levels (kThread_tick s) gpioLedRED = ledOn (kThread_tick s)"
    by (simp add: tick_levels)
  ultimately show ?thesis
    using tick_ledOn [of s] by simp
qed

section \<open>The LED thread: several passes\<close>

lemma ticks_mode: "mode (ticks k s) = mode s"
  by (induction k arbitrary: s) (simp_all add: tick_mode)

lemma ticks_blinkPeriod: "blinkPeriod (ticks k s) = blinkPeriod s"
  by (induction k arbitrary: s) (simp_all add: tick_blinkPeriod)

lemma ticks_Suc_end: "ticks (Suc k) s = kThread_tick (ticks k s)"
  by (induction k arbitrary: s) simp_all

lemma ticks_extends_trace: "\<exists>es. trace (ticks k s) = trace s @ es"
proof (induction k arbitrary: s)
  case 0
  show ?case by simp
next
  case (Suc k)
  from Suc.IH [of "kThread_tick s"] obtain es
    where "trace (ticks k (kThread_tick s)) = trace (kThread_tick s) @ es" ..
  then show ?case
    by (simp add: tick_trace)
qed

lemma ticks_trace: "trace (ticks k s) = trace s @ new_events s (ticks k s)"
proof -
  from ticks_extends_trace [of k s] obtain es
    where "trace (ticks k s) = trace s @ es" ..
  then show ?thesis
    by (simp add: new_events_def)
qed

lemma ticks_new_events_Suc:
  "new_events s (ticks (Suc k) s) =
     new_events s (kThread_tick s) @ new_events (kThread_tick s) (ticks k (kThread_tick s))"
proof -
  from ticks_extends_trace [of k "kThread_tick s"] obtain es
    where es: "trace (ticks k (kThread_tick s)) = trace (kThread_tick s) @ es" ..
  then have "new_events (kThread_tick s) (ticks k (kThread_tick s)) = es"
    by (simp add: new_events_def)
  moreover have "new_events s (ticks (Suc k) s) = new_events s (kThread_tick s) @ es"
    using es by (simp add: new_events_def tick_trace)
  ultimately show ?thesis
    by simp
qed

lemma led_writes_append: "led_writes (es @ fs) = led_writes es @ led_writes fs"
  by (induction es rule: led_writes.induct) simp_all

lemma sleeps_append: "sleeps (es @ fs) = sleeps es @ sleeps fs"
  by (induction es rule: sleeps.induct) simp_all

lemma slept_append: "slept (es @ fs) = slept es + slept fs"
  by (simp add: slept_def sleeps_append)

lemma slept_tick: "slept (new_events s (kThread_tick s)) = unat (blinkPeriod s) div 3"
  by (simp add: slept_def tick_new_events unat_div)

lemma slept_ticks: "slept (new_events s (ticks k s)) = k * (unat (blinkPeriod s) div 3)"
proof (induction k arbitrary: s)
  case 0
  show ?case by (simp add: new_events_def slept_def)
next
  case (Suc k)
  show ?case
    by (simp only: ticks_new_events_Suc slept_append slept_tick Suc.IH tick_blinkPeriod)
      simp
qed

lemma led_writes_ticks:
  "led_writes (new_events s (ticks k s)) =
     concat (map (\<lambda>b. [(gpioLedGREEN, b), (gpioLedRED, b)]) (led_after k s))"
proof (induction k arbitrary: s)
  case 0
  show ?case by (simp add: new_events_def)
next
  case (Suc k)
  have "led_writes (new_events s (kThread_tick s)) =
      [(gpioLedGREEN, ledOn (kThread_tick s)), (gpioLedRED, ledOn (kThread_tick s))]"
    by (simp add: tick_new_events)
  then show ?case
    by (simp only: ticks_new_events_Suc led_writes_append Suc.IH) (simp add: Let_def)
qed

lemma led_after_flash:
  "mode s = FLASH \<Longrightarrow> led_after k s = map (\<lambda>j. ledOn s = odd j) [0..<k]"
proof (induction k arbitrary: s)
  case 0
  show ?case by simp
next
  case (Suc k)
  from Suc.prems have m: "mode (kThread_tick s) = FLASH"
    by (simp add: tick_mode)
  from Suc.prems have l: "ledOn (kThread_tick s) = (\<not> ledOn s)"
    by (simp add: tick_ledOn)
  have "led_after k (kThread_tick s) = map (\<lambda>j. (\<not> ledOn s) = odd j) [0..<k]"
    using Suc.IH [OF m] l by simp
  then have "led_after (Suc k) s = (\<not> ledOn s) # map (\<lambda>j. (\<not> ledOn s) = odd j) [0..<k]"
    using l by (simp add: Let_def)
  also have "\<dots> = map (\<lambda>j. ledOn s = odd j) [0..<Suc k]"
    by (auto simp add: upt_conv_Cons map_Suc_upt [symmetric] simp del: upt_Suc)
  finally show ?case .
qed

lemma flips_flash: "mode s = FLASH \<Longrightarrow> flips (ledOn s) (led_after k s) = k"
proof (induction k arbitrary: s)
  case 0
  show ?case by simp
next
  case (Suc k)
  from Suc.prems have m: "mode (kThread_tick s) = FLASH"
    by (simp add: tick_mode)
  from Suc.prems have l: "ledOn (kThread_tick s) = (\<not> ledOn s)"
    by (simp add: tick_ledOn)
  from Suc.IH [OF m] l show ?case
    by (simp add: Let_def)
qed

lemma ticks_ledOn_flash: "mode s = FLASH \<Longrightarrow> ledOn (ticks k s) = (ledOn s \<noteq> odd k)"
proof (induction k arbitrary: s)
  case 0
  show ?case by simp
next
  case (Suc k)
  from Suc.prems have m: "mode (kThread_tick s) = FLASH"
    by (simp add: tick_mode)
  from Suc.prems have l: "ledOn (kThread_tick s) = (\<not> ledOn s)"
    by (simp add: tick_ledOn)
  from Suc.IH [OF m] l show ?case
    by auto
qed

text \<open>
  The thread function returns 0 once \<^verbatim>\<open>kthread_should_stop\<close> answers true, having made
  one pass for each earlier answer.
\<close>

lemma kThread_loop_returns:
  "kThread_loop (replicate k False @ [True]) s = Some (0, ticks k s)"
  by (induction k arbitrary: s) simp_all

lemma kThread_run_returns:
  "kThread_run (replicate k False @ [True]) s = Some (0, ticks k (printk LogThreadStarted s))"
  by (simp add: kThread_run_def kThread_loop_returns)

text \<open>
  C5. Each pass sleeps \<open>blinkPeriod / 3\<close> milliseconds, the quotient of the unsigned
  division (rounded down, which for unsigned values is towards zero): 333 for the
  configured 1000. Two passes, one full on and off in \<open>FLASH\<close> mode, sleep
  \<open>2 * (blinkPeriod / 3)\<close> milliseconds, 666 for the configured period and not 1000; for
  any period other than 0 this is less than the period.
\<close>

theorem tick_sleeps_a_third:
  "sleeps (new_events s (kThread_tick s)) = [blinkPeriod s div 3]
   \<and> unat (blinkPeriod s div 3) = unat (blinkPeriod s) div 3
   \<and> sleeps (new_events init_sys (kThread_tick init_sys)) = [333]
   \<and> slept (new_events s (ticks 2 s)) = 2 * (unat (blinkPeriod s) div 3)
   \<and> slept (new_events init_sys (ticks 2 init_sys)) = 666
   \<and> slept (new_events init_sys (ticks 2 init_sys)) \<noteq> unat (blinkPeriod init_sys)
   \<and> (blinkPeriod s \<noteq> 0 \<longrightarrow>
        slept (new_events s (ticks 2 s)) < unat (blinkPeriod s))"
proof -
  have a: "sleeps (new_events s (kThread_tick s)) = [blinkPeriod s div 3]" for s
    by (simp add: tick_new_events)
  have b: "unat (blinkPeriod s div 3) = unat (blinkPeriod s) div 3"
    by (simp add: unat_div)
  have c: "sleeps (new_events init_sys (kThread_tick init_sys)) = [333]"
    by (simp add: a) (simp add: init_sys_def)
  have d: "slept (new_events s (ticks 2 s)) = 2 * (unat (blinkPeriod s) div 3)" for s
    by (rule slept_ticks)
  have e: "slept (new_events init_sys (ticks 2 init_sys)) = 666"
    by (simp only: d) (simp add: init_sys_def)
  have f: "unat (blinkPeriod init_sys) = 1000"
    by (simp add: init_sys_def)
  have g: "slept (new_events s (ticks 2 s)) < unat (blinkPeriod s)" if "blinkPeriod s \<noteq> 0"
  proof -
    from that have "0 < unat (blinkPeriod s)"
      by (simp add: unat_gt_0)
    then have "2 * (unat (blinkPeriod s) div 3) < unat (blinkPeriod s)"
      by arith
    then show ?thesis
      by (simp only: d)
  qed
  from a b c d e f g show ?thesis
    by simp
qed

theorem tick_sleeps_a_third_witness:
  "blinkPeriod init_sys \<noteq> 0
   \<and> slept (new_events init_sys (ticks 2 init_sys)) < unat (blinkPeriod init_sys)"
proof -
  have h: "blinkPeriod init_sys \<noteq> 0" by (simp add: init_sys_def)
  with tick_sleeps_a_third [of init_sys] show ?thesis by blast
qed

text \<open>
  C8. With the mode \<open>FLASH\<close> throughout, \<open>K\<close> passes flip \<open>ledOn\<close> exactly \<open>K\<close> times:
  the values after the 1st, 2nd, ..., \<open>K\<close>-th pass alternate, starting with the negation
  of the initial value; these are the values written to the two pins; and the value after
  \<open>K\<close> passes is the initial one if \<open>K\<close> is even and its negation if \<open>K\<close> is odd.
\<close>

theorem flash_flips_every_tick:
  "mode s = FLASH \<Longrightarrow>
     mode (ticks K s) = FLASH
     \<and> led_after K s = map (\<lambda>j. ledOn s = odd j) [0..<K]
     \<and> flips (ledOn s) (led_after K s) = K
     \<and> ledOn (ticks K s) = (ledOn s \<noteq> odd K)
     \<and> led_writes (new_events s (ticks K s)) =
         concat (map (\<lambda>b. [(gpioLedGREEN, b), (gpioLedRED, b)]) (led_after K s))"
proof -
  assume f: "mode s = FLASH"
  have "mode (ticks K s) = FLASH"
    using f by (simp add: ticks_mode)
  moreover have "led_after K s = map (\<lambda>j. ledOn s = odd j) [0..<K]"
    using f by (rule led_after_flash)
  moreover have "flips (ledOn s) (led_after K s) = K"
    using f by (rule flips_flash)
  moreover have "ledOn (ticks K s) = (ledOn s \<noteq> odd K)"
    using f by (rule ticks_ledOn_flash)
  moreover have "led_writes (new_events s (ticks K s)) =
      concat (map (\<lambda>b. [(gpioLedGREEN, b), (gpioLedRED, b)]) (led_after K s))"
    by (rule led_writes_ticks)
  ultimately show ?thesis
    by blast
qed

theorem flash_flips_every_tick_witness:
  "mode init_sys = FLASH
   \<and> led_after 3 init_sys = [True, False, True]
   \<and> flips (ledOn init_sys) (led_after 3 init_sys) = 3
   \<and> ledOn (ticks 3 init_sys) = True
   \<and> led_writes (new_events init_sys (ticks 3 init_sys)) =
       [(gpioLedGREEN, True), (gpioLedRED, True), (gpioLedGREEN, False), (gpioLedRED, False),
        (gpioLedGREEN, True), (gpioLedRED, True)]"
proof -
  have h: "mode init_sys = FLASH" by (simp add: init_sys_def)
  have l: "ledOn init_sys = False" by (simp add: init_sys_def)
  from flash_flips_every_tick [OF h, of 3] h l show ?thesis
    by (simp add: upt_rec)
qed

text \<open>
  C10. At the end of every pass the red and the green LED pin are at the same level: the
  two writes of the pass carry the same value, that of \<open>ledOn\<close>. This holds after any
  number of passes, and at the end of a pass that follows any interleaving of interrupts
  and earlier passes.
\<close>

theorem leds_equal_after_tick:
  "levels (kThread_tick s) gpioLedRED = levels (kThread_tick s) gpioLedGREEN
   \<and> map snd (led_writes (new_events s (kThread_tick s))) =
       [ledOn (kThread_tick s), ledOn (kThread_tick s)]
   \<and> levels (ticks (Suc k) s) gpioLedRED = levels (ticks (Suc k) s) gpioLedGREEN
   \<and> levels (step Tick (run acts s)) gpioLedRED = levels (step Tick (run acts s)) gpioLedGREEN"
proof -
  have eq: "levels (kThread_tick s) gpioLedRED = levels (kThread_tick s) gpioLedGREEN" for s
    using pins_differ by (simp add: tick_levels)
  have "levels (ticks (Suc k) s) gpioLedRED = levels (ticks (Suc k) s) gpioLedGREEN"
    by (simp only: ticks_Suc_end eq)
  moreover have "map snd (led_writes (new_events s (kThread_tick s))) =
      [ledOn (kThread_tick s), ledOn (kThread_tick s)]"
    by (simp add: tick_new_events)
  ultimately show ?thesis
    using eq [of s] eq [of "run acts s"] by simp
qed

section \<open>Unloading\<close>

lemma exit_new_events:
  "new_events s (ebbgpio_exit s) =
     [KthreadStop,
      Printk (LogButtonState (gpio_get_value gpioButton s)),
      Printk (LogPressedTimes (numberPresses s)),
      GpioSetValue gpioLedRED False,
      GpioSetValue gpioLedGREEN False,
      GpioUnexport gpioLedRED,
      GpioUnexport gpioLedGREEN,
      FreeIrq (irqNumber s),
      GpioUnexport gpioButton,
      GpioFree gpioLedRED,
      GpioFree gpioLedGREEN,
      GpioFree gpioButton,
      Printk LogGoodbye]"
  by (simp add: ebbgpio_exit_def new_events_def kthread_stop_def printk_def
      gpio_get_value_def gpio_set_value_def gpio_unexport_def free_irq_def gpio_free_def
      emit_def Let_def)

lemma exit_levels:
  "levels (ebbgpio_exit s) = (levels s)(gpioLedRED := False, gpioLedGREEN := False)"
  by (simp add: ebbgpio_exit_def kthread_stop_def printk_def
      gpio_get_value_def gpio_set_value_def gpio_unexport_def free_irq_def gpio_free_def
      emit_def Let_def)

lemma exit_stages:
  "List.map_filter shutdown_stage (new_events s (ebbgpio_exit s)) =
     [0, 4, 1, 1, 2, 2, 3, 2, 2, 2, 2]"
  by (simp add: exit_new_events map_filter_simps)

text \<open>
  C7 (as amended). Unloading makes its calls in this order: stop the LED thread (which
  waits for it); log the button level and report the count; write 0 to the red and to the
  green LED pin; unexport the red and the green LED pin; free the interrupt; unexport the
  button pin; free the red, the green and the button pin; log a last line. Both LED pins
  are low afterwards.
\<close>

theorem exit_order:
  "new_events s (ebbgpio_exit s) =
     [KthreadStop,
      Printk (LogButtonState (gpio_get_value gpioButton s)),
      Printk (LogPressedTimes (numberPresses s)),
      GpioSetValue gpioLedRED False,
      GpioSetValue gpioLedGREEN False,
      GpioUnexport gpioLedRED,
      GpioUnexport gpioLedGREEN,
      FreeIrq (irqNumber s),
      GpioUnexport gpioButton,
      GpioFree gpioLedRED,
      GpioFree gpioLedGREEN,
      GpioFree gpioButton,
      Printk LogGoodbye]
   \<and> levels (ebbgpio_exit s) gpioLedRED = False
   \<and> levels (ebbgpio_exit s) gpioLedGREEN = False"
  using pins_differ by (simp add: exit_new_events exit_levels)

text \<open>
  C7 as stated fails: on a module loaded on a board where everything succeeds, the calls
  of unloading are not in the specified order. The count is reported before the LEDs are
  forced off, and the interrupt is freed before the button pin is unexported and before
  any pin is freed.
\<close>

theorem exit_order_not_as_specified:
  "\<not> shutdown_order_as_specified
       (new_events (snd (ebbgpio_init board_ok init_sys))
          (ebbgpio_exit (snd (ebbgpio_init board_ok init_sys))))"
  by (simp add: shutdown_order_as_specified_def exit_stages)

section \<open>Loading\<close>

text \<open>What each kernel call used by \<open>ebbgpio_init\<close> does to each part of the state.\<close>

lemma emit_fields:
  "trace (emit e s) = trace s @ [e]"
  "requested (emit e s) = requested s"
  "exported (emit e s) = exported s"
  "irqs (emit e s) = irqs s"
  "levels (emit e s) = levels s"
  "task (emit e s) = task s"
  "irqNumber (emit e s) = irqNumber s"
  "currentStateLedRED (emit e s) = currentStateLedRED s"
  "currentStateLedGREEN (emit e s) = currentStateLedGREEN s"
  by (simp_all add: emit_def)

lemma printk_fields:
  "trace (printk m s) = trace s @ [Printk m]"
  "requested (printk m s) = requested s"
  "exported (printk m s) = exported s"
  "irqs (printk m s) = irqs s"
  "levels (printk m s) = levels s"
  "task (printk m s) = task s"
  "irqNumber (printk m s) = irqNumber s"
  "currentStateLedRED (printk m s) = currentStateLedRED s"
  "currentStateLedGREEN (printk m s) = currentStateLedGREEN s"
  by (simp_all add: printk_def emit_fields)

lemma gpio_request_fields:
  "trace (gpio_request p pin s) = trace s @ [GpioRequest pin]"
  "requested (gpio_request p pin s) =
     (if gpio_request_rc p pin = 0 then [pin] else []) @ requested s"
  "exported (gpio_request p pin s) = exported s"
  "irqs (gpio_request p pin s) = irqs s"
  "levels (gpio_request p pin s) = levels s"
  "task (gpio_request p pin s) = task s"
  "irqNumber (gpio_request p pin s) = irqNumber s"
  "currentStateLedRED (gpio_request p pin s) = currentStateLedRED s"
  "currentStateLedGREEN (gpio_request p pin s) = currentStateLedGREEN s"
  by (simp_all add: gpio_request_def emit_fields)

lemma gpio_direction_output_fields:
  "trace (gpio_direction_output pin v s) = trace s @ [GpioDirectionOutput pin v]"
  "requested (gpio_direction_output pin v s) = requested s"
  "exported (gpio_direction_output pin v s) = exported s"
  "irqs (gpio_direction_output pin v s) = irqs s"
  "levels (gpio_direction_output pin v s) = (levels s)(pin := v)"
  "task (gpio_direction_output pin v s) = task s"
  "irqNumber (gpio_direction_output pin v s) = irqNumber s"
  "currentStateLedRED (gpio_direction_output pin v s) = currentStateLedRED s"
  "currentStateLedGREEN (gpio_direction_output pin v s) = currentStateLedGREEN s"
  by (simp_all add: gpio_direction_output_def emit_fields)

lemma gpio_direction_input_fields:
  "trace (gpio_direction_input pin s) = trace s @ [GpioDirectionInput pin]"
  "requested (gpio_direction_input pin s) = requested s"
  "exported (gpio_direction_input pin s) = exported s"
  "irqs (gpio_direction_input pin s) = irqs s"
  "levels (gpio_direction_input pin s) = levels s"
  "task (gpio_direction_input pin s) = task s"
  "irqNumber (gpio_direction_input pin s) = irqNumber s"
  by (simp_all add: gpio_direction_input_def emit_fields)

lemma gpio_set_debounce_fields:
  "trace (gpio_set_debounce pin ms s) = trace s @ [GpioSetDebounce pin ms]"
  "requested (gpio_set_debounce pin ms s) = requested s"
  "exported (gpio_set_debounce pin ms s) = exported s"
  "irqs (gpio_set_debounce pin ms s) = irqs s"
  "levels (gpio_set_debounce pin ms s) = levels s"
  "task (gpio_set_debounce pin ms s) = task s"
  "irqNumber (gpio_set_debounce pin ms s) = irqNumber s"
  by (simp_all add: gpio_set_debounce_def emit_fields)

lemma gpio_export_fields:
  "trace (gpio_export pin c s) = trace s @ [GpioExport pin c]"
  "requested (gpio_export pin c s) = requested s"
  "exported (gpio_export pin c s) =
     (if pin \<in> set (requested s) then [pin] else []) @ exported s"
  "irqs (gpio_export pin c s) = irqs s"
  "levels (gpio_export pin c s) = levels s"
  "task (gpio_export pin c s) = task s"
  "irqNumber (gpio_export pin c s) = irqNumber s"
  by (simp_all add: gpio_export_def emit_fields)

lemma request_irq_fields:
  "fst (request_irq p irq s) = request_irq_rc p"
  "trace (snd (request_irq p irq s)) = trace s @ [RequestIrq irq]"
  "requested (snd (request_irq p irq s)) = requested s"
  "exported (snd (request_irq p irq s)) = exported s"
  "irqs (snd (request_irq p irq s)) = (if request_irq_rc p = 0 then [irq] else []) @ irqs s"
  "levels (snd (request_irq p irq s)) = levels s"
  "task (snd (request_irq p irq s)) = task s"
  "irqNumber (snd (request_irq p irq s)) = irqNumber s"
  by (simp_all add: request_irq_def emit_fields)

lemma kthread_run_fields:
  "fst (kthread_run p s) = kthread_run_result p"
  "trace (snd (kthread_run p s)) = trace s @ [KthreadRun]"
  "requested (snd (kthread_run p s)) = requested s"
  "exported (snd (kthread_run p s)) = exported s"
  "irqs (snd (kthread_run p s)) = irqs s"
  "levels (snd (kthread_run p s)) = levels s"
  "task (snd (kthread_run p s)) = task s"
  "irqNumber (snd (kthread_run p s)) = irqNumber s"
  by (simp_all add: kthread_run_def emit_fields)

lemmas call_fields =
  printk_fields gpio_request_fields gpio_direction_output_fields
  gpio_direction_input_fields gpio_set_debounce_fields gpio_export_fields
  request_irq_fields kthread_run_fields gpio_get_value_def

text \<open>The pin check stops loading only when neither LED pin is valid.\<close>

lemma init_both_leds_invalid:
  "\<not> gpio_is_valid p gpioLedRED \<Longrightarrow> \<not> gpio_is_valid p gpioLedGREEN \<Longrightarrow>
     ebbgpio_init p s = (- ENODEV, printk LogInvalidLed (printk LogInitializing s))"
  by (simp add: ebbgpio_init_def Let_def)

lemma init_both_leds_invalid_acquires_nothing:
  "\<not> gpio_is_valid p gpioLedRED \<Longrightarrow> \<not> gpio_is_valid p gpioLedGREEN \<Longrightarrow>
     requested (snd (ebbgpio_init p s)) = requested s
     \<and> exported (snd (ebbgpio_init p s)) = exported s
     \<and> irqs (snd (ebbgpio_init p s)) = irqs s"
  by (simp add: init_both_leds_invalid printk_fields)

text \<open>Past the pin check, with the thread created: what loading returns and leaves.\<close>

lemma init_result:
  "gpio_is_valid p gpioLedRED \<or> gpio_is_valid p gpioLedGREEN \<Longrightarrow>
     \<not> IS_ERR (kthread_run_result p) \<Longrightarrow>
     fst (ebbgpio_init p s) = request_irq_rc p"
  by (auto simp add: ebbgpio_init_def Let_def split_beta call_fields)

lemma init_task:
  "gpio_is_valid p gpioLedRED \<or> gpio_is_valid p gpioLedGREEN \<Longrightarrow>
     \<not> IS_ERR (kthread_run_result p) \<Longrightarrow>
     task (snd (ebbgpio_init p s)) = kthread_run_result p"
  by (auto simp add: ebbgpio_init_def Let_def split_beta call_fields)

lemma init_requested:
  "gpio_is_valid p gpioLedRED \<or> gpio_is_valid p gpioLedGREEN \<Longrightarrow>
     \<not> IS_ERR (kthread_run_result p) \<Longrightarrow>
     requested (snd (ebbgpio_init p s)) =
       filter (\<lambda>pin. gpio_request_rc p pin = 0) [gpioButton, gpioLedGREEN, gpioLedRED]
         @ requested s"
  by (auto simp add: ebbgpio_init_def Let_def split_beta call_fields)


lemma pins_distinct:
  "gpioLedRED \<noteq> gpioLedGREEN" "gpioLedGREEN \<noteq> gpioLedRED"
  "gpioLedRED \<noteq> gpioButton" "gpioButton \<noteq> gpioLedRED"
  "gpioLedGREEN \<noteq> gpioButton" "gpioButton \<noteq> gpioLedGREEN"
  by (simp_all add: gpioLedRED_def gpioLedGREEN_def gpioButton_def)

lemma init_exported:
  "gpio_is_valid p gpioLedRED \<or> gpio_is_valid p gpioLedGREEN \<Longrightarrow>
     \<not> IS_ERR (kthread_run_result p) \<Longrightarrow>
     exported (snd (ebbgpio_init p s)) =
       filter (\<lambda>pin. gpio_request_rc p pin = 0 \<or> pin \<in> set (requested s))
         [gpioButton, gpioLedGREEN, gpioLedRED] @ exported s"
  by (auto simp add: ebbgpio_init_def Let_def split_beta call_fields pins_distinct)

lemma init_exported_requested:
  assumes "gpio_is_valid p gpioLedRED \<or> gpio_is_valid p gpioLedGREEN"
    and "\<not> IS_ERR (kthread_run_result p)"
  shows "exported (snd (ebbgpio_init p s)) =
       filter (\<lambda>pin. pin \<in> set (requested (snd (ebbgpio_init p s))))
         [gpioButton, gpioLedGREEN, gpioLedRED] @ exported s"
proof -
  have "pin \<in> set (requested (snd (ebbgpio_init p s))) \<longleftrightarrow>
      gpio_request_rc p pin = 0 \<or> pin \<in> set (requested s)"
    if "pin \<in> {gpioButton, gpioLedGREEN, gpioLedRED}" for pin
    using that by (auto simp add: init_requested [OF assms])
  then have "filter (\<lambda>pin. pin \<in> set (requested (snd (ebbgpio_init p s))))
        [gpioButton, gpioLedGREEN, gpioLedRED] =
      filter (\<lambda>pin. gpio_request_rc p pin = 0 \<or> pin \<in> set (requested s))
        [gpioButton, gpioLedGREEN, gpioLedRED]"
    by (intro filter_cong) auto
  then show ?thesis
    by (simp only: init_exported [OF assms])
qed

lemma init_irqs:
  "gpio_is_valid p gpioLedRED \<or> gpio_is_valid p gpioLedGREEN \<Longrightarrow>
     \<not> IS_ERR (kthread_run_result p) \<Longrightarrow>
     irqs (snd (ebbgpio_init p s)) =
       (if request_irq_rc p = 0 then [word_of_int (gpio_to_irq p gpioButton)] else []) @ irqs s"
  by (auto simp add: ebbgpio_init_def Let_def split_beta call_fields)

lemma init_new_events:
  "gpio_is_valid p gpioLedRED \<or> gpio_is_valid p gpioLedGREEN \<Longrightarrow>
     \<not> IS_ERR (kthread_run_result p) \<Longrightarrow>
     new_events s (snd (ebbgpio_init p s)) =
       [Printk LogInitializing,
        GpioRequest gpioLedRED,
        GpioRequest gpioLedGREEN,
        GpioDirectionOutput gpioLedRED (currentStateLedRED s),
        GpioDirectionOutput gpioLedGREEN (currentStateLedGREEN s),
        GpioExport gpioLedRED False,
        GpioExport gpioLedGREEN False,
        GpioRequest gpioButton,
        GpioDirectionInput gpioButton,
        GpioSetDebounce gpioButton 200,
        GpioExport gpioButton False,
        Printk (LogButtonState (if levels s gpioButton then 1 else 0)),
        Printk (LogIrqMapped (word_of_int (gpio_to_irq p gpioButton))),
        RequestIrq (word_of_int (gpio_to_irq p gpioButton)),
        Printk (LogIrqResult (request_irq_rc p)),
        KthreadRun]"
  by (auto simp add: ebbgpio_init_def Let_def split_beta call_fields new_events_def
      pins_distinct)

text \<open>Past the pin check, with no thread created: the error of \<^verbatim>\<open>kthread_run\<close> is returned.\<close>

lemma init_task_failed:
  "gpio_is_valid p gpioLedRED \<or> gpio_is_valid p gpioLedGREEN \<Longrightarrow>
     kthread_run_result p = ErrPtr e \<Longrightarrow> - 4095 \<le> e \<Longrightarrow> e \<le> - 1 \<Longrightarrow>
     fst (ebbgpio_init p s) = e"
  by (auto simp add: ebbgpio_init_def Let_def split_beta call_fields)

text \<open>
  C6 (as amended). When \<^verbatim>\<open>request_irq\<close> fails, loading does not stop there: its next
  calls are the log line with the result code and then \<^verbatim>\<open>kthread_run\<close>. With the thread
  created it returns the code of \<^verbatim>\<open>request_irq\<close>, having released nothing: none of its
  calls unexports or frees a pin, every pin whose request succeeded is still requested,
  and of the three pins exactly those that are requested have been exported (and still
  are).
\<close>

theorem init_irq_failure_is_not_fatal:
  "gpio_is_valid p gpioLedRED \<or> gpio_is_valid p gpioLedGREEN \<Longrightarrow>
     request_irq_rc p \<noteq> 0 \<Longrightarrow>
     \<not> IS_ERR (kthread_run_result p) \<Longrightarrow>
     fst (ebbgpio_init p s) = request_irq_rc p
     \<and> task (snd (ebbgpio_init p s)) = kthread_run_result p
     \<and> new_events s (snd (ebbgpio_init p s)) =
         [Printk LogInitializing,
          GpioRequest gpioLedRED,
          GpioRequest gpioLedGREEN,
          GpioDirectionOutput gpioLedRED (currentStateLedRED s),
          GpioDirectionOutput gpioLedGREEN (currentStateLedGREEN s),
          GpioExport gpioLedRED False,
          GpioExport gpioLedGREEN False,
          GpioRequest gpioButton,
          GpioDirectionInput gpioButton,
          GpioSetDebounce gpioButton 200,
          GpioExport gpioButton False,
          Printk (LogButtonState (if levels s gpioButton then 1 else 0)),
          Printk (LogIrqMapped (word_of_int (gpio_to_irq p gpioButton))),
          RequestIrq (word_of_int (gpio_to_irq p gpioButton)),
          Printk (LogIrqResult (request_irq_rc p)),
          KthreadRun]
     \<and> filter is_release (new_events s (snd (ebbgpio_init p s))) = []
     \<and> requested (snd (ebbgpio_init p s)) =
         filter (\<lambda>pin. gpio_request_rc p pin = 0) [gpioButton, gpioLedGREEN, gpioLedRED]
           @ requested s
     \<and> exported (snd (ebbgpio_init p s)) =
         filter (\<lambda>pin. pin \<in> set (requested (snd (ebbgpio_init p s))))
           [gpioButton, gpioLedGREEN, gpioLedRED] @ exported s
     \<and> irqs (snd (ebbgpio_init p s)) = irqs s"
proof -
  assume v: "gpio_is_valid p gpioLedRED \<or> gpio_is_valid p gpioLedGREEN"
    and f: "request_irq_rc p \<noteq> 0"
    and t: "\<not> IS_ERR (kthread_run_result p)"
  have "filter is_release (new_events s (snd (ebbgpio_init p s))) = []"
    by (simp add: init_new_events [OF v t])
  moreover have "irqs (snd (ebbgpio_init p s)) = irqs s"
    using f by (simp add: init_irqs [OF v t])
  moreover note init_result [OF v t, of s] init_task [OF v t, of s]
    init_new_events [OF v t, of s] init_requested [OF v t, of s]
    init_exported_requested [OF v t, of s]
  ultimately show ?thesis
    by (intro conjI)
qed

lemma board_irq_busy_fields:
  "gpio_is_valid board_irq_busy gpioLedRED"
  "gpio_request_rc board_irq_busy pin = 0"
  "gpio_to_irq board_irq_busy pin = 181"
  "request_irq_rc board_irq_busy = - 16"
  "kthread_run_result board_irq_busy = Task"
  by (simp_all add: board_irq_busy_def gpio_is_valid_def gpioLedRED_def)

text \<open>The hypotheses hold on the board where \<^verbatim>\<open>request_irq\<close> answers \<^verbatim>\<open>-EBUSY\<close>.\<close>

theorem init_irq_failure_is_not_fatal_witness:
  "(gpio_is_valid board_irq_busy gpioLedRED \<or> gpio_is_valid board_irq_busy gpioLedGREEN)
   \<and> request_irq_rc board_irq_busy \<noteq> 0
   \<and> \<not> IS_ERR (kthread_run_result board_irq_busy)
   \<and> fst (ebbgpio_init board_irq_busy init_sys) = - 16
   \<and> task (snd (ebbgpio_init board_irq_busy init_sys)) = Task
   \<and> drop 13 (new_events init_sys (snd (ebbgpio_init board_irq_busy init_sys))) =
       [RequestIrq 181, Printk (LogIrqResult (- 16)), KthreadRun]
   \<and> requested (snd (ebbgpio_init board_irq_busy init_sys)) =
       [gpioButton, gpioLedGREEN, gpioLedRED]
   \<and> exported (snd (ebbgpio_init board_irq_busy init_sys)) =
       [gpioButton, gpioLedGREEN, gpioLedRED]
   \<and> irqs (snd (ebbgpio_init board_irq_busy init_sys)) = []"
proof -
  have v: "gpio_is_valid board_irq_busy gpioLedRED \<or> gpio_is_valid board_irq_busy gpioLedGREEN"
    by (simp add: board_irq_busy_fields)
  have f: "request_irq_rc board_irq_busy \<noteq> 0"
    by (simp add: board_irq_busy_fields)
  have t: "\<not> IS_ERR (kthread_run_result board_irq_busy)"
    by (simp add: board_irq_busy_fields)
  have r: "requested (snd (ebbgpio_init board_irq_busy init_sys)) =
      [gpioButton, gpioLedGREEN, gpioLedRED]"
    using init_irq_failure_is_not_fatal [OF v f t, of init_sys]
    by (simp add: board_irq_busy_fields init_sys_def)
  from init_irq_failure_is_not_fatal [OF v f t, of init_sys] v f t r show ?thesis
    by (simp add: board_irq_busy_fields init_sys_def)
qed

text \<open>
  C6 as stated fails: on the board where every pin is valid and \<^verbatim>\<open>request_irq\<close> answers
  \<^verbatim>\<open>-EBUSY\<close>, loading returns that error with the three pins still requested and
  exported and the LED thread started.
\<close>

theorem init_irq_busy_releases_nothing:
  "fst (ebbgpio_init board_irq_busy init_sys) = - 16
   \<and> requested (snd (ebbgpio_init board_irq_busy init_sys)) =
       [gpioButton, gpioLedGREEN, gpioLedRED]
   \<and> exported (snd (ebbgpio_init board_irq_busy init_sys)) =
       [gpioButton, gpioLedGREEN, gpioLedRED]
   \<and> task (snd (ebbgpio_init board_irq_busy init_sys)) = Task
   \<and> KthreadRun \<in> set (trace (snd (ebbgpio_init board_irq_busy init_sys)))"
proof -
  have v: "gpio_is_valid board_irq_busy gpioLedRED \<or> gpio_is_valid board_irq_busy gpioLedGREEN"
    by (simp add: board_irq_busy_fields)
  have t: "\<not> IS_ERR (kthread_run_result board_irq_busy)"
    by (simp add: board_irq_busy_fields)
  have n: "new_events init_sys s' = trace s'" for s'
    by (simp add: new_events_def init_sys_def)
  have "KthreadRun \<in> set (new_events init_sys (snd (ebbgpio_init board_irq_busy init_sys)))"
    by (simp add: init_new_events [OF v t])
  then have "KthreadRun \<in> set (trace (snd (ebbgpio_init board_irq_busy init_sys)))"
    by (simp only: n)
  then show ?thesis
    using init_result [OF v t, of init_sys] init_task [OF v t, of init_sys]
      init_requested [OF v t, of init_sys] init_exported [OF v t, of init_sys]
    by (simp add: board_irq_busy_fields init_sys_def)
qed

section \<open>Loading with an invalid LED pin\<close>

text \<open>
  The pins are 66, 67 and 69 and validity is a bound on the number, so an invalid LED pin
  makes the button's pin invalid as well, and an invalid red pin makes the green one
  invalid.
\<close>

lemma invalid_led_forces_invalid_button:
  "\<not> gpio_is_valid p gpioLedRED \<or> \<not> gpio_is_valid p gpioLedGREEN \<Longrightarrow>
     \<not> gpio_is_valid p gpioButton"
  by (auto simp add: gpio_is_valid_def gpioLedRED_def gpioLedGREEN_def gpioButton_def)

lemma invalid_red_forces_invalid_green:
  "\<not> gpio_is_valid p gpioLedRED \<Longrightarrow> \<not> gpio_is_valid p gpioLedGREEN"
  by (auto simp add: gpio_is_valid_def gpioLedRED_def gpioLedGREEN_def)

text \<open>
  Hence the pin check, which stops loading when both LED pins are invalid, lets exactly
  one case with an invalid LED pin through: 67 GPIOs, where the green LED's pin is the
  first invalid number.
\<close>

lemma check_misses_exactly_67:
  "(\<not> gpio_is_valid p gpioLedGREEN \<and> gpio_is_valid p gpioLedRED) \<longleftrightarrow> ARCH_NR_GPIOS p = 67"
  by (auto simp add: gpio_is_valid_def gpioLedRED_def gpioLedGREEN_def)



end
